theory Spec2Isabelle
  imports Complex_Main "HOL-Library.Word"
begin

section \<open>JavaScript values\<close>

text \<open>
  The program is JavaScript. Its numbers are modelled as exact reals, in the functions
  where the rounding of IEEE doubles decides no comparison between values that are equal
  or adjacent in exact arithmetic; overflow to an infinity is outside the model. The
  model keeps the difference between \<open>null\<close>, \<open>NaN\<close> and a proper number, because the code
  tests for each of them (\<open>!== null\<close>, \<open>isNaN\<close>), and the quotient \<open>0 / 0\<close> of \<open>mapRange\<close>,
  which JavaScript evaluates to \<open>NaN\<close> and HOL would evaluate to \<open>0\<close>.
\<close>

datatype jsnum = Null | NaN | Num real

text \<open>\<open>ToNumber\<close>: \<open>null\<close> counts as \<open>0\<close> in arithmetic, \<open>NaN\<close> has no numeric value.\<close>

fun ToNumber :: "jsnum \<Rightarrow> real option" where
  "ToNumber Null = Some 0"
| "ToNumber NaN = None"
| "ToNumber (Num r) = Some r"

text \<open>\<open>a - b\<close> on values that may be \<open>null\<close> or \<open>NaN\<close>.\<close>

definition js_sub :: "jsnum \<Rightarrow> jsnum \<Rightarrow> jsnum" where
  "js_sub a b =
     (case (ToNumber a, ToNumber b) of
        (Some x, Some y) \<Rightarrow> Num (x - y)
      | _ \<Rightarrow> NaN)"

text \<open>\<open>isNaN(v)\<close>: \<open>isNaN(null)\<close> is false.\<close>

definition isNaN :: "jsnum \<Rightarrow> bool" where
  "isNaN v = (ToNumber v = None)"

text \<open>\<open>v <= 0\<close>: every comparison with \<open>NaN\<close> is false.\<close>

definition js_le_zero :: "jsnum \<Rightarrow> bool" where
  "js_le_zero v = (case ToNumber v of Some x \<Rightarrow> x \<le> 0 | None \<Rightarrow> False)"

text \<open>The errors that the code can raise.\<close>

datatype error = TypeError | ReferenceError

section \<open>utils.js\<close>

definition removeItem :: "'a list \<Rightarrow> 'a \<Rightarrow> 'a list" where
  "removeItem arr item = filter (\<lambda>value. value \<noteq> item) arr"

definition constrain :: "real \<Rightarrow> real \<Rightarrow> real \<Rightarrow> real" where
  "constrain value minValue maxValue = min (max value minValue) maxValue"

text \<open>
  \<open>mapRange\<close> divides by \<open>max - min\<close>. When the two are equal the clamped value equals
  \<open>min\<close> as well (lemma \<open>constrain_same\<close> below), so the quotient is \<open>0 / 0\<close>, which is
  \<open>NaN\<close>, and stays \<open>NaN\<close> through the multiplication and the addition.
\<close>

definition mapRange :: "real \<Rightarrow> real \<Rightarrow> real \<Rightarrow> real \<Rightarrow> real \<Rightarrow> jsnum" where
  "mapRange value mn mx newMin newMax =
     (let clampedValue = constrain value mn mx in
      if mx - mn = 0 then NaN
      else
        let normalizedValue = (clampedValue - mn) / (mx - mn)
        in Num (normalizedValue * (newMax - newMin) + newMin))"

definition mapPct :: "real \<Rightarrow> real \<Rightarrow> real \<Rightarrow> real" where
  "mapPct o' a b = (let o'' = constrain o' 0 100 in ((b - a) * o'') / 100 + a)"

fun calcExpMovingAverage :: "real \<Rightarrow> jsnum \<Rightarrow> jsnum \<Rightarrow> jsnum" where
  "calcExpMovingAverage smooth Null newValue = newValue"
| "calcExpMovingAverage smooth NaN newValue = newValue"
| "calcExpMovingAverage smooth (Num currAverage) newValue =
     (case js_sub newValue (Num currAverage) of
        Num delta \<Rightarrow> (let weightedDelta = smooth * delta in Num (currAverage + weightedDelta))
      | _ \<Rightarrow> NaN)"

text \<open>
  \<open>calcLowerTrimmedMean\<close> is not embedded. It sorts the readings as strings, sums them in
  that order, takes a square root, and keeps the readings that are at least
  \<open>mean - deviationThreshold * deviation\<close>: with readings that are equal or close to that
  bound, the rounding of the doubles decides which of them are kept, and whether any is.
  Where the controller calls it, the model takes the value that it returns as an argument.
\<close>

section \<open>meater-daemon.js\<close>

subsection \<open>MeaterProbe\<close>

text \<open>The unit strings are a degree sign (code unit \<open>0xB0\<close>) and a letter.\<close>

definition FAHRENHEIT :: string where
  "FAHRENHEIT = [CHR 0xB0, CHR ''F'']"

definition CELSIUS :: string where
  "CELSIUS = [CHR 0xB0, CHR ''C'']"

text \<open>
  \<open>(byte1 << 8) + byte0\<close>: the shift works on 32-bit signed integers, the addition on
  numbers. The arguments are elements of a byte buffer.
\<close>

definition bytesToInt :: "8 word \<Rightarrow> 8 word \<Rightarrow> int" where
  "bytesToInt byte0 byte1 = sint (push_bit 8 (ucast byte1 :: 32 word)) + uint byte0"

definition toCelsius :: "real \<Rightarrow> real \<times> string" where
  "toCelsius value = ((value + 8) / 16, CELSIUS)"

definition toFahrenheit :: "real \<Rightarrow> real \<times> string" where
  "toFahrenheit value = ((fst (toCelsius value) * 9) / 5 + 32, FAHRENHEIT)"

record MeaterProbe =
  deviceAddress :: string
  probeIndex :: string
  probe_units :: string

definition convertTemperature :: "MeaterProbe \<Rightarrow> real \<Rightarrow> real \<times> string" where
  "convertTemperature p = (if probe_units p = CELSIUS then toCelsius else toFahrenheit)"

text \<open>The object that \<open>update\<close> emits with the event \<open>update\<close>.\<close>

record reading =
  r_probeIndex :: string
  r_address :: string
  r_tip :: real
  r_ambient :: real
  r_units :: string
  r_battery :: int
  r_timestamp :: real

text \<open>
  A poll cycle of \<open>update\<close> in which the probe is connected and both characteristics are
  read: \<open>tempBuffer\<close> holds six bytes and \<open>battBuffer\<close> two, and \<open>now\<close> is the time of
  \<open>new Date()\<close>. The model gives \<open>None\<close> for a shorter buffer, which the characteristics
  do not deliver.
\<close>

fun update :: "MeaterProbe \<Rightarrow> real \<Rightarrow> 8 word list \<Rightarrow> 8 word list \<Rightarrow> reading option" where
  "update p now (t0 # t1 # t2 # t3 # t4 # t5 # _) (b0 # b1 # _) =
     (let tip = real_of_int (bytesToInt t0 t1);
          ra = real_of_int (bytesToInt t2 t3);
          oa = real_of_int (bytesToInt t4 t5);
          ambient = tip + max 0 (((ra - min 48 oa) * 16 * 589) / 1487);
          (tip', units') = convertTemperature p tip;
          (ambient', units'') = convertTemperature p ambient;
          battery = bytesToInt b0 b1 * 10
      in Some \<lparr>r_probeIndex = probeIndex p, r_address = deviceAddress p, r_tip = tip',
               r_ambient = ambient', r_units = units'', r_battery = battery,
               r_timestamp = now\<rparr>)"
| "update p now _ _ = None"

subsection \<open>MeaterDaemon\<close>

record MeaterDaemon =
  restartCount :: int
  active :: bool
  d_blacklist :: "string list"
  errCount :: nat
  d_units :: string

definition blacklist :: "MeaterDaemon \<Rightarrow> string \<Rightarrow> MeaterDaemon" where
  "blacklist d ident = d\<lparr>d_blacklist := d_blacklist d @ [ident]\<rparr>"

definition whitelist :: "MeaterDaemon \<Rightarrow> string \<Rightarrow> MeaterDaemon" where
  "whitelist d ident = d\<lparr>d_blacklist := removeItem (d_blacklist d) ident\<rparr>"

definition isBlacklisted :: "MeaterDaemon \<Rightarrow> string \<Rightarrow> bool" where
  "isBlacklisted d ident = (ident \<in> set (d_blacklist d))"

definition isWhitelisted :: "MeaterDaemon \<Rightarrow> string \<Rightarrow> bool" where
  "isWhitelisted d ident = (\<not> isBlacklisted d ident)"

section \<open>pit-pid.js\<close>

datatype PIDMODE = STARTUP | RECOVERY | NORMAL | MANUAL | OFF

fun mode_value :: "PIDMODE \<Rightarrow> nat" where
  "mode_value STARTUP = 0"
| "mode_value RECOVERY = 1"
| "mode_value NORMAL = 2"
| "mode_value MANUAL = 3"
| "mode_value OFF = 4"

definition AUTO_LAST :: nat where
  "AUTO_LAST = 2"

fun PIDMODE_STR :: "PIDMODE \<Rightarrow> string" where
  "PIDMODE_STR STARTUP = ''STARTUP''"
| "PIDMODE_STR RECOVERY = ''RECOVERY''"
| "PIDMODE_STR NORMAL = ''NORMAL''"
| "PIDMODE_STR MANUAL = ''MANUAL''"
| "PIDMODE_STR OFF = ''OFF''"

definition PID_PONMEER_LAMBDA :: real where
  "PID_PONMEER_LAMBDA = 0.4"

definition LIDOPEN_MIN_AUTORESUME :: real where
  "LIDOPEN_MIN_AUTORESUME = 30"

definition TEMP_MEASURE_PERIOD :: real where
  "TEMP_MEASURE_PERIOD = 1000"

definition TEMP_LONG_PWM_CNT :: nat where
  "TEMP_LONG_PWM_CNT = 10"

definition TEMP_OUTADJUST_CNT :: nat where
  "TEMP_OUTADJUST_CNT = 3"

definition SERVO_MIN_THRESH :: real where
  "SERVO_MIN_THRESH = 5"

definition SERVO_MAX_HOLDOFF :: nat where
  "SERVO_MAX_HOLDOFF = 10"

definition DO_WORK_PERIOD :: int where
  "DO_WORK_PERIOD = \<lfloor>TEMP_MEASURE_PERIOD / real (TEMP_OUTADJUST_CNT + 1)\<rfloor>"

definition TEMPPROBE_AVG_SMOOTH :: real where
  "TEMPPROBE_AVG_SMOOTH = 2.0 / (1.0 + 60.0)"

definition PID_OUTPUT_AVG_SMOOTH :: real where
  "PID_OUTPUT_AVG_SMOOTH = 2.0 / (1.0 + 240.0)"

definition TEMP_DEV_THRESHOLD :: real where
  "TEMP_DEV_THRESHOLD = 0.5"

text \<open>An entry of \<open>_connectedProbes\<close>.\<close>

record probe_data =
  timestamp :: real
  ambient :: real

text \<open>
  The fields of a \<open>PitPID\<close> object, under the names of the source without the leading
  underscore. \<open>_connectedProbes\<close> is an object used as a dictionary: an association list
  in the order of insertion. \<open>_setPoint\<close> is \<open>null\<close> (\<open>None\<close>) until the setter stores
  a number. The field \<open>_blacklist\<close>, which no method reads or writes, is left out.
\<close>

record PitPID =
  Pid_P :: real
  Pid_I :: real
  Pid_D :: real
  pidCurrent_P :: real
  pidCurrent_I :: real
  pidCurrent_D :: real
  pidMode :: PIDMODE
  pidOutput :: real
  pidOutputAvg :: jsnum
  lastWorkMillis :: real
  periodCounter :: nat
  longPwmTmr :: nat
  longPwmRemaining :: real
  units :: "string option"
  setPoint :: "real option"
  currentTemp :: jsnum
  temperatureAvg :: jsnum
  fanMaxSpeed :: real
  fanMaxStartupSpeed :: real
  fanActiveFloor :: real
  fanMinSpeed :: real
  servoMinPos :: real
  servoMaxPos :: real
  fanPct :: real
  lastBlowerOutput :: real
  servoActiveCeil :: real
  servoPct :: real
  servoHoldoff :: nat
  lidOpenOffset :: real
  lidOpenDuration :: real
  lidOpenTimeout :: real
  connectedProbes :: "(string \<times> probe_data) list"

text \<open>The payload of the \<open>status\<close> event, and the events that the controller emits.\<close>

record status =
  st_mode :: string
  st_numProbes :: nat
  st_pitTemp :: jsnum
  st_setPoint :: "real option"
  st_units :: "string option"
  st_pidOutput :: real
  st_fanPct :: real
  st_servoPct :: jsnum

datatype output_type = fan | servo

datatype event = Output output_type real | Status status

text \<open>The state that the constructor sets up before it calls \<open>doWork\<close>.\<close>

definition constructed :: PitPID where
  "constructed =
     \<lparr>Pid_P = 2.5, Pid_I = 0.0035, Pid_D = 6,
      pidCurrent_P = 0, pidCurrent_I = 0, pidCurrent_D = 0,
      pidMode = STARTUP, pidOutput = 0, pidOutputAvg = Num 0,
      lastWorkMillis = 0, periodCounter = 0,
      longPwmTmr = 0, longPwmRemaining = 0,
      units = None, setPoint = None, currentTemp = Null, temperatureAvg = Null,
      fanMaxSpeed = 80, fanMaxStartupSpeed = 100, fanActiveFloor = 50, fanMinSpeed = 50,
      servoMinPos = 0, servoMaxPos = 100,
      fanPct = 0, lastBlowerOutput = 0,
      servoActiveCeil = 100, servoPct = 0, servoHoldoff = 0,
      lidOpenOffset = 5, lidOpenDuration = 240, lidOpenTimeout = 0,
      connectedProbes = []\<rparr>"

subsection \<open>Setters and getters\<close>

text \<open>\<open>set pid(value)\<close>: each of the three gains is replaced when it is given.\<close>

definition set_pid :: "real option \<Rightarrow> real option \<Rightarrow> real option \<Rightarrow> PitPID \<Rightarrow> PitPID" where
  "set_pid vP vI vD s =
     (let s = (case vP of Some v \<Rightarrow> s\<lparr>Pid_P := v\<rparr> | None \<Rightarrow> s);
          s = (case vI of Some v \<Rightarrow> s\<lparr>Pid_I := v\<rparr> | None \<Rightarrow> s)
      in (case vD of Some v \<Rightarrow> s\<lparr>Pid_D := v\<rparr> | None \<Rightarrow> s))"

definition set_pidMode :: "PIDMODE \<Rightarrow> PitPID \<Rightarrow> PitPID" where
  "set_pidMode value s = s\<lparr>pidMode := value, lidOpenTimeout := 0, pidOutput := 0\<rparr>"

definition set_fanMaxSpeed :: "real \<Rightarrow> PitPID \<Rightarrow> PitPID" where
  "set_fanMaxSpeed value s = s\<lparr>fanMaxSpeed := constrain value 0 100\<rparr>"

definition set_fanMaxStartupSpeed :: "real \<Rightarrow> PitPID \<Rightarrow> PitPID" where
  "set_fanMaxStartupSpeed value s = s\<lparr>fanMaxStartupSpeed := constrain value 0 100\<rparr>"

definition fanCurrentMaxSpeed :: "PitPID \<Rightarrow> real" where
  "fanCurrentMaxSpeed s = (if pidMode s = STARTUP then fanMaxStartupSpeed s else fanMaxSpeed s)"

definition set_fanActiveFloor :: "real \<Rightarrow> PitPID \<Rightarrow> PitPID" where
  "set_fanActiveFloor value s = s\<lparr>fanActiveFloor := constrain value 0 99\<rparr>"

definition set_fanMinSpeed :: "real \<Rightarrow> PitPID \<Rightarrow> PitPID" where
  "set_fanMinSpeed value s = s\<lparr>fanMinSpeed := constrain value 0 100\<rparr>"

definition set_servoMinPos :: "real \<Rightarrow> PitPID \<Rightarrow> PitPID" where
  "set_servoMinPos value s = s\<lparr>servoMinPos := constrain value 0 100\<rparr>"

definition set_servoMaxPos :: "real \<Rightarrow> PitPID \<Rightarrow> PitPID" where
  "set_servoMaxPos value s = s\<lparr>servoMaxPos := constrain value 0 100\<rparr>"

definition set_lidOpenOffset :: "real \<Rightarrow> PitPID \<Rightarrow> PitPID" where
  "set_lidOpenOffset value s = s\<lparr>lidOpenOffset := constrain value 0 100\<rparr>"

definition set_lidOpenDuration :: "real \<Rightarrow> PitPID \<Rightarrow> PitPID" where
  "set_lidOpenDuration value s =
     s\<lparr>lidOpenDuration :=
         (if value > LIDOPEN_MIN_AUTORESUME then value else LIDOPEN_MIN_AUTORESUME)\<rparr>"

definition numProbes :: "PitPID \<Rightarrow> nat" where
  "numProbes s = length (map fst (connectedProbes s))"

definition pitTemp :: "PitPID \<Rightarrow> jsnum" where
  "pitTemp s = currentTemp s"

definition allAmbientTemps :: "PitPID \<Rightarrow> real list" where
  "allAmbientTemps s = map (\<lambda>probe. ambient probe) (map snd (connectedProbes s))"

text \<open>The number that \<open>this._setPoint\<close> stands for in arithmetic: \<open>null\<close> counts as 0.\<close>

definition setPointNumber :: "PitPID \<Rightarrow> real" where
  "setPointNumber s = (case setPoint s of None \<Rightarrow> 0 | Some v \<Rightarrow> v)"

definition set_setPoint :: "real \<Rightarrow> PitPID \<Rightarrow> PitPID" where
  "set_setPoint value s = (set_pidMode STARTUP s)\<lparr>setPoint := Some value\<rparr>"

definition set_pidOutPut :: "real \<Rightarrow> PitPID \<Rightarrow> PitPID" where
  "set_pidOutPut value s = (set_pidMode MANUAL s)\<lparr>pidOutput := constrain value 0 100\<rparr>"

definition pidOutPut :: "PitPID \<Rightarrow> real" where
  "pidOutPut s = pidOutput s"

definition isPitTempReached :: "PitPID \<Rightarrow> bool" where
  "isPitTempReached s = (pidMode s = NORMAL)"

text \<open>
  The getters that read the clock take the value of \<open>millis()\<close> as the argument \<open>now\<close>.
\<close>

definition isLidOpen :: "real \<Rightarrow> PitPID \<Rightarrow> bool" where
  "isLidOpen now s = (now < lidOpenTimeout s)"

definition lidOpenResumeCountdown :: "real \<Rightarrow> PitPID \<Rightarrow> real" where
  "lidOpenResumeCountdown now s = (now - lidOpenTimeout s) / 1000"

definition hasTemperature :: "PitPID \<Rightarrow> bool" where
  "hasTemperature s =
     (numProbes s > 0 \<and>
      currentTemp s \<noteq> Null \<and>
      \<not> isNaN (currentTemp s) \<and>
      temperatureAvg s \<noteq> Null \<and>
      \<not> isNaN (temperatureAvg s))"

subsection \<open>The control loop\<close>

definition tempProbeProcessPeriod :: "PitPID \<Rightarrow> PitPID" where
  "tempProbeProcessPeriod s =
     (if currentTemp s \<noteq> Null
      then s\<lparr>temperatureAvg :=
               calcExpMovingAverage TEMPPROBE_AVG_SMOOTH (temperatureAvg s) (currentTemp s)\<rparr>
      else s)"

definition resetLidOpenTimeout :: "real \<Rightarrow> PitPID \<Rightarrow> PitPID" where
  "resetLidOpenTimeout now s =
     s\<lparr>pidMode := RECOVERY, lidOpenTimeout := now + lidOpenOffset s * 1000\<rparr>"

text \<open>
  \<open>isPitTempReached\<close> is a getter, so \<open>this.isPitTempReached\<close> is a boolean, and
  \<open>this.isPitTempReached()\<close> in \<open>_lidModeShouldActivate\<close> applies that boolean as a
  function: a \<open>TypeError\<close>, whatever the boolean is.
\<close>

definition call_boolean :: "bool \<Rightarrow> error" where
  "call_boolean b = TypeError"

text \<open>
  The conjunction is evaluated from the left and stops at the first false conjunct. Its
  second conjunct raises, so the third and the fourth,
  \<open>(tempDiff * 100) / this._setPoint >= this._lidOpenOffset\<close> and
  \<open>this._pidOutputAvg < 90\<close>, are never evaluated.
\<close>

definition lidModeShouldActivate :: "PitPID \<Rightarrow> jsnum \<Rightarrow> error + bool" where
  "lidModeShouldActivate s tempDiff =
     (if \<not> (lidOpenOffset s > 0) then Inr False
      else Inl (call_boolean (isPitTempReached s)))"

definition emitFanOutput :: "real \<Rightarrow> event list" where
  "emitFanOutput value = [Output fan value]"

definition emitServoOutput :: "real \<Rightarrow> event list" where
  "emitServoOutput value = [Output servo value]"

definition emitStatusReport :: "PitPID \<Rightarrow> event list" where
  "emitStatusReport s =
     [Status \<lparr>st_mode = PIDMODE_STR (pidMode s),
              st_numProbes = numProbes s,
              st_pitTemp = pitTemp s,
              st_setPoint = setPoint s,
              st_units = units s,
              st_pidOutput = pidOutPut s,
              st_fanPct = fanPct s,
              st_servoPct = mapRange (servoPct s) (servoMinPos s) (servoMaxPos s) 0 100\<rparr>]"

definition commitServoOutput :: "PitPID \<Rightarrow> event list \<times> PitPID" where
  "commitServoOutput s =
     (let output = (if pidOutput s \<ge> servoActiveCeil s then 100
                    else (pidOutput s * 100) / servoActiveCeil s);
          output = mapPct output (servoMinPos s) (servoMaxPos s);
          s = s\<lparr>servoHoldoff := servoHoldoff s + 1\<rparr>;
          isBigMove = (\<bar>output - servoPct s\<bar> > SERVO_MIN_THRESH)
      in if isBigMove \<or> servoHoldoff s > SERVO_MAX_HOLDOFF
         then (emitServoOutput output, s\<lparr>servoPct := output, servoHoldoff := 0\<rparr>)
         else ([], s))"

text \<open>
  The two quotients of \<open>_commitFanOutput\<close> have divisors that are not zero where they are
  evaluated, as long as the configuration is one the setters produce: \<open>range\<close> is at
  least 1 since \<open>_fanActiveFloor\<close> is at most 99, and the long-pulse branch is entered
  with \<open>0 \<le> newFanSpeed < _fanMinSpeed\<close>.
\<close>

definition commitFanOutput :: "PitPID \<Rightarrow> event list \<times> PitPID" where
  "commitFanOutput s =
     (let newFanSpeed =
            (if pidOutput s < fanActiveFloor s then 0
             else
               let range = 100 - fanActiveFloor s;
                   mx = fanCurrentMaxSpeed s
               in ((pidOutput s - fanActiveFloor s) * mx) / range);
          s = s\<lparr>longPwmRemaining := 0\<rparr>;
          (newFanSpeed, s) =
            (if newFanSpeed \<ge> fanMinSpeed s then (newFanSpeed, s\<lparr>longPwmTmr := 0\<rparr>)
             else
               let runningDur = real (longPwmTmr s) * TEMP_MEASURE_PERIOD;
                   targetDur =
                     ((real TEMP_LONG_PWM_CNT * TEMP_MEASURE_PERIOD) / fanMinSpeed s) * newFanSpeed;
                   (newFanSpeed, s) =
                     (if targetDur > runningDur
                      then (fanMinSpeed s, s\<lparr>longPwmRemaining := targetDur - runningDur\<rparr>)
                      else (0, s));
                   s = s\<lparr>longPwmTmr := longPwmTmr s + 1\<rparr>
               in (newFanSpeed,
                   if longPwmTmr s > TEMP_LONG_PWM_CNT - 1 then s\<lparr>longPwmTmr := 0\<rparr> else s));
          s = s\<lparr>fanPct := newFanSpeed\<rparr>
      in
        if fanPct s = 0
        then (let s = s\<lparr>lastBlowerOutput := 0\<rparr> in (emitFanOutput (lastBlowerOutput s), s))
        else
          let needBoost = (lastBlowerOutput s = 0);
              s = s\<lparr>lastBlowerOutput := fanPct s\<rparr>
          in if needBoost \<and> TEMP_OUTADJUST_CNT > 0 then (emitFanOutput 100, s)
             else (emitFanOutput (lastBlowerOutput s), s))"

definition commitPidOutput :: "PitPID \<Rightarrow> event list \<times> PitPID" where
  "commitPidOutput s =
     (let s = s\<lparr>pidOutputAvg :=
                  calcExpMovingAverage PID_OUTPUT_AVG_SMOOTH (pidOutputAvg s) (Num (pidOutput s))\<rparr>;
          (fanEvents, s) = commitFanOutput s;
          (servoEvents, s) = commitServoOutput s
      in (fanEvents @ servoEvents @ emitStatusReport s, s))"

definition getPidIMax :: "PitPID \<Rightarrow> real" where
  "getPidIMax s = (if isPitTempReached s then 100 else fanMaxStartupSpeed s)"

text \<open>
  \<open>_calcPidOutput\<close> tests \<open>this._isLidOpen\<close>. The class has the getter \<open>isLidOpen\<close> and no
  property \<open>_isLidOpen\<close>, and nothing assigns one: the expression is \<open>undefined\<close>, which
  counts as false.
\<close>

definition underscore_isLidOpen :: "PitPID \<Rightarrow> bool" where
  "underscore_isLidOpen s = False"

text \<open>
  In the branch for a negative gain, \<open>exHigh\<close> is declared \<open>const\<close> and then assigned
  with \<open>+=\<close>, and the right-hand side reads \<open>Pid.P\<close>, where no binding \<open>Pid\<close> exists.
  The right-hand side is evaluated first: a \<open>ReferenceError\<close>. (With a binding \<open>Pid\<close>
  the assignment to the constant would raise a \<open>TypeError\<close>.) By then the integrator has
  been incremented and not yet constrained.

  After the test of \<open>hasTemperature\<close> both temperatures are numbers, so the last case of
  the case distinction is not reached.
\<close>

definition calcPidOutput :: "PitPID \<Rightarrow> error + PitPID" where
  "calcPidOutput s =
     (let lastOutput = pidOutput s;
          s = s\<lparr>pidOutput := 0\<rparr>
      in
        if \<not> hasTemperature s then Inr s
        else if underscore_isLidOpen s then Inr s
        else
          (case (currentTemp s, temperatureAvg s) of
             (Num currentTemp', Num temperatureAvg') \<Rightarrow>
               (let setPoint' = setPointNumber s;
                    error = setPoint' - currentTemp';
                    s = (if Pid_P s < 0
                         then s\<lparr>pidCurrent_P :=
                                  Pid_P s * (- PID_PONMEER_LAMBDA * setPoint' + currentTemp')\<rparr>
                         else s\<lparr>pidCurrent_P := Pid_P s * error\<rparr>);
                    high = getPidIMax s
                in
                  (case
                     (if (error < 0 \<and> lastOutput > 0) \<or> (error > 0 \<and> lastOutput < high)
                      then
                        (let s = s\<lparr>pidCurrent_I := pidCurrent_I s + Pid_I s * error\<rparr>;
                             exHigh = high
                         in if Pid_P s < 0.0 then Inl ReferenceError
                            else Inr (s\<lparr>pidCurrent_I := constrain (pidCurrent_I s) 0 exHigh\<rparr>))
                      else Inr s)
                   of
                     Inl e \<Rightarrow> Inl e
                   | Inr s \<Rightarrow>
                       (let s = s\<lparr>pidCurrent_D := Pid_D s * (temperatureAvg' - currentTemp')\<rparr>;
                            control = pidCurrent_P s + pidCurrent_I s + pidCurrent_D s
                        in Inr (s\<lparr>pidOutput := constrain control 0 100\<rparr>))))
           | _ \<Rightarrow> Inr s))"

definition setUnits :: "string \<Rightarrow> PitPID \<Rightarrow> PitPID" where
  "setUnits u s = s\<lparr>units := Some u, temperatureAvg := Null\<rparr>"

text \<open>
  Assignment to the entry of a key in \<open>_connectedProbes\<close>: an existing key keeps its
  place, a new key is added at the end.
\<close>

fun assign :: "string \<Rightarrow> probe_data \<Rightarrow> (string \<times> probe_data) list \<Rightarrow> (string \<times> probe_data) list" where
  "assign k v [] = [(k, v)]"
| "assign k v ((k', v') # ps) = (if k' = k then (k, v) # ps else (k', v') # assign k v ps)"

text \<open>
  \<open>updateProbe\<close>: the argument \<open>fused\<close> is the value of
  \<open>calcLowerTrimmedMean(this.allAmbientTemps, TEMP_DEV_THRESHOLD)\<close>, a number or \<open>NaN\<close>.
\<close>

definition updateProbe :: "jsnum \<Rightarrow> reading \<Rightarrow> PitPID \<Rightarrow> PitPID" where
  "updateProbe fused data s =
     (let s = s\<lparr>connectedProbes :=
                  assign (r_address data)
                    \<lparr>timestamp = r_timestamp data, ambient = r_ambient data\<rparr>
                    (connectedProbes s)\<rparr>;
          s = (if Some (r_units data) \<noteq> units s then setUnits (r_units data) s else s)
      in s\<lparr>currentTemp := fused\<rparr>)"

definition removeProbe :: "string \<Rightarrow> PitPID \<Rightarrow> PitPID" where
  "removeProbe address s =
     s\<lparr>connectedProbes := filter (\<lambda>entry. fst entry \<noteq> address) (connectedProbes s)\<rparr>"

text \<open>
  One call of \<open>doWork\<close> at the time \<open>now\<close> (the clock is read as one value for the whole
  call). The result is the list of the events emitted, in order, with the new state, or
  the error that the call raises. Scheduling the next call with \<open>setTimeout\<close> belongs to
  the environment: it is the next application of \<open>doWork\<close>. A call is a heavy tick when
  at least \<open>TEMP_MEASURE_PERIOD\<close> has elapsed since the last one.
\<close>

definition doWork :: "real \<Rightarrow> PitPID \<Rightarrow> error + event list \<times> PitPID" where
  "doWork now s =
     (let elapsed = now - lastWorkMillis s;
          (pwmEvents, s) =
            (if longPwmRemaining s \<noteq> 0 \<and> elapsed > longPwmRemaining s
             then (emitFanOutput (fanMaxSpeed s), s\<lparr>longPwmRemaining := 0, lastBlowerOutput := 0\<rparr>)
             else ([], s));
          s = (if TEMP_OUTADJUST_CNT > 0 \<and>
                  elapsed > real (periodCounter s) * (TEMP_MEASURE_PERIOD / real TEMP_OUTADJUST_CNT)
               then s\<lparr>periodCounter := periodCounter s + 1\<rparr>
               else s)
      in
        if elapsed < TEMP_MEASURE_PERIOD then Inr (pwmEvents, s)
        else
          let s = s\<lparr>periodCounter := 1, lastWorkMillis := now\<rparr>;
              s = tempProbeProcessPeriod s
          in
            (case (if mode_value (pidMode s) \<le> AUTO_LAST then calcPidOutput s else Inr s) of
               Inl e \<Rightarrow> Inl e
             | Inr s \<Rightarrow>
                 (let tempDiff =
                        js_sub (case setPoint s of None \<Rightarrow> Null | Some v \<Rightarrow> Num v) (currentTemp s)
                  in
                    (case
                       (if js_le_zero tempDiff \<and>
                           lidOpenDuration s - lidOpenResumeCountdown now s \<ge> LIDOPEN_MIN_AUTORESUME
                        then
                          (let s = (if pidMode s = STARTUP
                                    then s\<lparr>pidCurrent_I := pidCurrent_I s * 0.5\<rparr> else s)
                           in Inr (s\<lparr>pidMode := NORMAL, lidOpenTimeout := 0\<rparr>))
                        else if lidOpenResumeCountdown now s \<noteq> 0
                        then Inr (s\<lparr>lidOpenTimeout :=
                                      lidOpenResumeCountdown now s * 1000 - TEMP_MEASURE_PERIOD\<rparr>)
                        else
                          (case lidModeShouldActivate s tempDiff of
                             Inl e \<Rightarrow> Inl e
                           | Inr activate \<Rightarrow>
                               Inr (if activate then resetLidOpenTimeout now s else s)))
                     of
                       Inl e \<Rightarrow> Inl e
                     | Inr s \<Rightarrow>
                         (let (events, s) = commitPidOutput s
                          in Inr (pwmEvents @ events, s))))))"

text \<open>The events of a call that returns; \<open>None\<close> for a call that raises.\<close>

definition emitted :: "error + event list \<times> PitPID \<Rightarrow> event list option" where
  "emitted r = (case r of Inl e \<Rightarrow> None | Inr (events, s) \<Rightarrow> Some events)"

definition raised :: "error + 'a \<Rightarrow> error option" where
  "raised r = (case r of Inl e \<Rightarrow> Some e | Inr v \<Rightarrow> None)"

text \<open>Successive calls of \<open>doWork\<close> at the given times, with the events of all of them.\<close>

fun ticks :: "real list \<Rightarrow> PitPID \<Rightarrow> error + event list \<times> PitPID" where
  "ticks [] s = Inr ([], s)"
| "ticks (now # nows) s =
     (case doWork now s of
        Inl e \<Rightarrow> Inl e
      | Inr (events, s') \<Rightarrow>
          (case ticks nows s' of
             Inl e \<Rightarrow> Inl e
           | Inr (events', s'') \<Rightarrow> Inr (events @ events', s'')))"

section \<open>The body of \<open>doWork\<close> in parts\<close>

text \<open>
  For the proofs, the parts of the body of \<open>doWork\<close> get names: the chain of mode
  transitions, the heavy part of the body (from the reset of the period counter on), and
  the event and the state of the long-pulse switch-off at the start of the body. Lemma
  \<open>doWork_heavyTick\<close> shows that \<open>doWork\<close> is composed of them.
\<close>

definition modeTransitions :: "real \<Rightarrow> jsnum \<Rightarrow> PitPID \<Rightarrow> error + PitPID" where
  "modeTransitions now tempDiff s =
     (if js_le_zero tempDiff \<and>
         lidOpenDuration s - lidOpenResumeCountdown now s \<ge> LIDOPEN_MIN_AUTORESUME
      then
        (let s = (if pidMode s = STARTUP
                  then s\<lparr>pidCurrent_I := pidCurrent_I s * 0.5\<rparr> else s)
         in Inr (s\<lparr>pidMode := NORMAL, lidOpenTimeout := 0\<rparr>))
      else if lidOpenResumeCountdown now s \<noteq> 0
      then Inr (s\<lparr>lidOpenTimeout :=
                    lidOpenResumeCountdown now s * 1000 - TEMP_MEASURE_PERIOD\<rparr>)
      else
        (case lidModeShouldActivate s tempDiff of
           Inl e \<Rightarrow> Inl e
         | Inr activate \<Rightarrow>
             Inr (if activate then resetLidOpenTimeout now s else s)))"

definition heavyTick :: "real \<Rightarrow> event list \<Rightarrow> PitPID \<Rightarrow> error + event list \<times> PitPID" where
  "heavyTick now pwmEvents s =
     (let s = s\<lparr>periodCounter := 1, lastWorkMillis := now\<rparr>;
          s = tempProbeProcessPeriod s
      in
        (case (if mode_value (pidMode s) \<le> AUTO_LAST then calcPidOutput s else Inr s) of
           Inl e \<Rightarrow> Inl e
         | Inr s \<Rightarrow>
             (let tempDiff =
                    js_sub (case setPoint s of None \<Rightarrow> Null | Some v \<Rightarrow> Num v) (currentTemp s)
              in
                (case modeTransitions now tempDiff s of
                   Inl e \<Rightarrow> Inl e
                 | Inr s \<Rightarrow>
                     (let (events, s) = commitPidOutput s
                      in Inr (pwmEvents @ events, s))))))"

definition pwmSwitchOff :: "real \<Rightarrow> PitPID \<Rightarrow> event list" where
  "pwmSwitchOff now s =
     (if longPwmRemaining s \<noteq> 0 \<and> longPwmRemaining s < now - lastWorkMillis s
      then [Output fan (fanMaxSpeed s)] else [])"

definition afterSwitchOff :: "real \<Rightarrow> PitPID \<Rightarrow> PitPID" where
  "afterSwitchOff now s =
     (if longPwmRemaining s \<noteq> 0 \<and> longPwmRemaining s < now - lastWorkMillis s
      then s\<lparr>longPwmRemaining := 0, lastBlowerOutput := 0\<rparr> else s)"

text \<open>
  The state on which a heavy tick at the time \<open>now\<close> computes its output: the period
  counter and the time of the last work are set, and the moving average of the temperature
  is updated.
\<close>

definition pidInput :: "real \<Rightarrow> PitPID \<Rightarrow> PitPID" where
  "pidInput now s =
     tempProbeProcessPeriod ((afterSwitchOff now s)\<lparr>periodCounter := 1, lastWorkMillis := now\<rparr>)"


section \<open>Ranges\<close>

text \<open>
  The ranges that the constructor and the setters establish for the fan configuration and
  for the output, and what it means for a value of the status report to be a percentage.
\<close>

definition limits_ok :: "PitPID \<Rightarrow> bool" where
  "limits_ok s =
     (0 \<le> fanMaxSpeed s \<and> fanMaxSpeed s \<le> 100 \<and>
      0 \<le> fanMaxStartupSpeed s \<and> fanMaxStartupSpeed s \<le> 100 \<and>
      0 \<le> fanActiveFloor s \<and> fanActiveFloor s \<le> 99 \<and>
      0 \<le> fanMinSpeed s \<and> fanMinSpeed s \<le> 100 \<and>
      0 \<le> pidOutput s \<and> pidOutput s \<le> 100)"

definition percentage :: "real \<Rightarrow> bool" where
  "percentage v = (0 \<le> v \<and> v \<le> 100)"

definition js_percentage :: "jsnum \<Rightarrow> bool" where
  "js_percentage v = (case v of Num r \<Rightarrow> percentage r | _ \<Rightarrow> False)"

section \<open>The runs of the controller\<close>

text \<open>
  The calls that the program makes on a controller: \<open>doWork\<close>, the setters,
  \<open>updateProbe\<close> and \<open>removeProbe\<close>. \<open>DoWork\<close> carries the time of the call, and
  \<open>UpdateProbe\<close> the value that \<open>calcLowerTrimmedMean\<close> returned in it. A setter, an
  update and a removal emit no event and do not raise.
\<close>

datatype call =
    DoWork real
  | Set_pid "real option" "real option" "real option"
  | Set_pidMode PIDMODE
  | Set_fanMaxSpeed real
  | Set_fanMaxStartupSpeed real
  | Set_fanActiveFloor real
  | Set_fanMinSpeed real
  | Set_servoMinPos real
  | Set_servoMaxPos real
  | Set_lidOpenOffset real
  | Set_lidOpenDuration real
  | Set_setPoint real
  | Set_pidOutPut real
  | UpdateProbe jsnum reading
  | RemoveProbe string

fun invoke :: "call \<Rightarrow> PitPID \<Rightarrow> error + event list \<times> PitPID" where
  "invoke (DoWork now) s = doWork now s"
| "invoke (Set_pid vP vI vD) s = Inr ([], set_pid vP vI vD s)"
| "invoke (Set_pidMode value) s = Inr ([], set_pidMode value s)"
| "invoke (Set_fanMaxSpeed value) s = Inr ([], set_fanMaxSpeed value s)"
| "invoke (Set_fanMaxStartupSpeed value) s = Inr ([], set_fanMaxStartupSpeed value s)"
| "invoke (Set_fanActiveFloor value) s = Inr ([], set_fanActiveFloor value s)"
| "invoke (Set_fanMinSpeed value) s = Inr ([], set_fanMinSpeed value s)"
| "invoke (Set_servoMinPos value) s = Inr ([], set_servoMinPos value s)"
| "invoke (Set_servoMaxPos value) s = Inr ([], set_servoMaxPos value s)"
| "invoke (Set_lidOpenOffset value) s = Inr ([], set_lidOpenOffset value s)"
| "invoke (Set_lidOpenDuration value) s = Inr ([], set_lidOpenDuration value s)"
| "invoke (Set_setPoint value) s = Inr ([], set_setPoint value s)"
| "invoke (Set_pidOutPut value) s = Inr ([], set_pidOutPut value s)"
| "invoke (UpdateProbe fused data) s = Inr ([], updateProbe fused data s)"
| "invoke (RemoveProbe address) s = Inr ([], removeProbe address s)"

text \<open>The calls of a list one after the other, with the events of all of them.\<close>

fun run :: "call list \<Rightarrow> PitPID \<Rightarrow> error + event list \<times> PitPID" where
  "run [] s = Inr ([], s)"
| "run (c # cs) s =
     (case invoke c s of
        Inl e \<Rightarrow> Inl e
      | Inr (events, s') \<Rightarrow>
          (case run cs s' of
             Inl e \<Rightarrow> Inl e
           | Inr (events', s'') \<Rightarrow> Inr (events @ events', s'')))"

text \<open>The state that a call leaves; \<open>None\<close> for a call that raises.\<close>

definition after :: "error + event list \<times> PitPID \<Rightarrow> PitPID option" where
  "after r = (case r of Inl e \<Rightarrow> None | Inr (events, s) \<Rightarrow> Some s)"

text \<open>
  The states in which a controller can be between two calls. The constructor ends with its
  own call of \<open>doWork\<close>, at any time; after that every call that returns leaves such a
  state. The times and the arguments of the calls are arbitrary, and the clock is not
  assumed to advance from one call to the next.
\<close>

inductive reachable :: "PitPID \<Rightarrow> bool" where
  new: "doWork now constructed = Inr (events, s) \<Longrightarrow> reachable s"
| step: "reachable s \<Longrightarrow> invoke c s = Inr (events, s') \<Longrightarrow> reachable s'"

text \<open>The lid timeout is not negative and not later than the last heavy tick.\<close>

definition lidTimeoutPassed :: "PitPID \<Rightarrow> bool" where
  "lidTimeoutPassed s = (0 \<le> lidOpenTimeout s \<and> lidOpenTimeout s \<le> lastWorkMillis s)"

section \<open>States of the controller used as examples\<close>

text \<open>
  A controller with the set-point \<open>sp\<close> and one connected probe that reports the ambient
  temperature \<open>t\<close>, as after \<open>setPoint = sp\<close>, one \<open>updateProbe\<close> and one heavy tick:
  the fused temperature and its moving average are both \<open>t\<close>.
\<close>

definition running :: "real \<Rightarrow> real \<Rightarrow> PitPID" where
  "running sp t =
     constructed
       \<lparr>units := Some FAHRENHEIT, setPoint := Some sp, currentTemp := Num t,
        temperatureAvg := Num t,
        connectedProbes := [(''B8:1F:5E:00:00:01'', \<lparr>timestamp = 0, ambient = t\<rparr>)]\<rparr>"

text \<open>The controller with the gain \<open>P = -2.5\<close>, set with \<open>pid = {P: -2.5}\<close>.\<close>

definition negative_gain_example :: PitPID where
  "negative_gain_example = set_pid (Some (- 2.5)) None None (running 250 200)"

text \<open>
  The controller in manual mode at the output 64.0625, set with \<open>pidOutPut = 64.0625\<close>.
  With the default active floor 50 and maximal speed 80 the mapped fan speed is 22.5,
  below the minimal speed 50.
\<close>

definition manual_low_speed_example :: PitPID where
  "manual_low_speed_example = set_pidOutPut 64.0625 (running 250 200)"

text \<open>
  The controller as the constructor leaves it when it is built at the time 1700000000000.
\<close>

definition started :: PitPID where
  "started =
     constructed
       \<lparr>lastWorkMillis := 1700000000000, periodCounter := 1, longPwmTmr := 1,
        servoHoldoff := 1, lidOpenTimeout := 1699999999000\<rparr>"

text \<open>A reading of one probe with the temperature \<open>t\<close>, taken at the time \<open>now\<close>.\<close>

definition probe_reading :: "real \<Rightarrow> real \<Rightarrow> reading" where
  "probe_reading now t =
     \<lparr>r_probeIndex = ''1'', r_address = ''B8:1F:5E:00:00:01'', r_tip = t, r_ambient = t,
      r_units = FAHRENHEIT, r_battery = 100, r_timestamp = now\<rparr>"

text \<open>
  A pit that reaches its set-point and then loses fifty degrees. The lid-open offset is set
  to 20 per cent and the set-point to 250; the probe reports 260, and \<open>doWork\<close> is called
  every 250 ms for two seconds, which brings the controller to the mode \<open>NORMAL\<close>; then the
  probe reports 200, and three light ticks follow. With one probe the fused temperature
  is the reading: the mean of the one value, with the deviation 0.
\<close>

definition lid_drop_calls :: "call list" where
  "lid_drop_calls =
     [Set_lidOpenOffset 20, Set_setPoint 250,
      UpdateProbe (Num 260) (probe_reading 1700000000100 260),
      DoWork 1700000000250, DoWork 1700000000500, DoWork 1700000000750, DoWork 1700000001000,
      DoWork 1700000001250, DoWork 1700000001500, DoWork 1700000001750, DoWork 1700000002000,
      UpdateProbe (Num 200) (probe_reading 1700000002100 200),
      DoWork 1700000002250, DoWork 1700000002500, DoWork 1700000002750]"

text \<open>The state that these calls leave, when they are made on \<open>started\<close>.\<close>

definition lid_drop_example :: PitPID where
  "lid_drop_example =
     constructed
       \<lparr>pidCurrent_P := - 25, pidMode := NORMAL, lastWorkMillis := 1700000002000,
        periodCounter := 3, longPwmTmr := 3, units := Some FAHRENHEIT, setPoint := Some 250,
        currentTemp := Num 200, temperatureAvg := Num 260, servoHoldoff := 3,
        lidOpenOffset := 20,
        connectedProbes :=
          [(''B8:1F:5E:00:00:01'', \<lparr>timestamp = 1700000002100, ambient = 200\<rparr>)]\<rparr>"

text \<open>
  The next heavy tick, after which the probe is removed, and the state that this leaves: a
  controller with a set-point, an integrator of \<open>7 / 40\<close> and no probe.
\<close>

definition probe_lost_calls :: "call list" where
  "probe_lost_calls = [DoWork 1700000003000, RemoveProbe ''B8:1F:5E:00:00:01'']"

definition probe_lost_example :: PitPID where
  "probe_lost_example =
     constructed
       \<lparr>pidCurrent_P := 125, pidCurrent_I := 7 / 40, pidCurrent_D := 21240 / 61,
        pidMode := NORMAL, pidOutput := 100, pidOutputAvg := Num (200 / 241),
        lastWorkMillis := 1700000003000, periodCounter := 1,
        units := Some FAHRENHEIT, setPoint := Some 250,
        currentTemp := Num 200, temperatureAvg := Num (15740 / 61),
        fanPct := 80, lastBlowerOutput := 80, servoPct := 100,
        lidOpenOffset := 20, lidOpenTimeout := 1700000002000\<rparr>"

section \<open>The probe manager\<close>

lemma shift_byte: "sint (push_bit 8 (ucast (byte1 :: 8 word) :: 32 word)) = 256 * uint byte1"
proof -
  have b: "uint byte1 < 256" "0 \<le> uint byte1"
    using uint_bounded [of byte1] by simp_all
  have e: "(push_bit 8 (ucast byte1 :: 32 word)) = word_of_int (256 * uint byte1)"
    by (simp add: push_bit_eq_mult)
  have p: "(2::int) ^ 31 = 2147483648"
    by simp
  have t: "signed_take_bit 31 (256 * uint byte1) = 256 * uint byte1"
    using b p by (intro signed_take_bit_int_eq_self) linarith+
  have s: "sint (word_of_int (256 * uint byte1) :: 32 word) = signed_take_bit 31 (256 * uint byte1)"
    unfolding sint_sbintrunc' by simp
  show ?thesis
    by (simp only: e s t)
qed

text \<open>\<open>bytesToInt\<close> reads its two bytes as a little-endian unsigned 16-bit number.\<close>

lemma bytesToInt_u16_le: "bytesToInt byte0 byte1 = uint byte0 + 256 * uint byte1"
  by (simp add: bytesToInt_def shift_byte)

lemma bytesToInt_range: "0 \<le> bytesToInt byte0 byte1 \<and> bytesToInt byte0 byte1 < 65536"
proof -
  have "uint byte0 < 256" "uint byte1 < 256"
    using uint_bounded [of byte0] uint_bounded [of byte1] by simp_all
  then show ?thesis
    using uint_ge_0 [of byte0] uint_ge_0 [of byte1] unfolding bytesToInt_u16_le by linarith
qed

text \<open>
  C9, as the claim states it, fails: a poll cycle whose battery characteristic holds the
  bytes 11 and 0 emits the battery value 110, which is above 100 and is not the clamped
  value.
\<close>

theorem C9_battery_above_100:
  "map_option r_battery
     (update \<lparr>deviceAddress = ''B8:1F:5E:00:00:01'', probeIndex = ''1'', probe_units = FAHRENHEIT\<rparr>
        0 [0, 0, 0, 0, 0, 0] [11, 0]) = Some 110"
  by (simp add: Let_def bytesToInt_def split: prod.splits)

text \<open>
  C9, amended: every poll cycle that reads both characteristics emits an \<open>update\<close> whose
  battery value is the little-endian unsigned 16-bit number of the first two bytes of the
  battery characteristic, multiplied by 10. Nothing clamps it.
\<close>

theorem C9_battery_unclamped:
  "map_option r_battery (update p now (t0 # t1 # t2 # t3 # t4 # t5 # ts) (b0 # b1 # bs))
     = Some ((uint b0 + 256 * uint b1) * 10)"
  by (simp add: Let_def bytesToInt_u16_le split: prod.splits)

text \<open>
  C10, as the claim states it, fails for an address that is on the blacklist already:
  \<open>blacklist\<close> adds a second entry, \<open>whitelist\<close> removes both, and the address is no
  longer blacklisted.
\<close>

theorem C10_blacklisted_before_not_after:
  "isBlacklisted
     \<lparr>restartCount = 0, active = True, d_blacklist = [''B8:1F:5E:00:00:01''], errCount = 0,
      d_units = FAHRENHEIT\<rparr> ''B8:1F:5E:00:00:01'' \<and>
   \<not> isBlacklisted
     (whitelist
        (blacklist
           \<lparr>restartCount = 0, active = True, d_blacklist = [''B8:1F:5E:00:00:01''], errCount = 0,
            d_units = FAHRENHEIT\<rparr> ''B8:1F:5E:00:00:01'')
        ''B8:1F:5E:00:00:01'') ''B8:1F:5E:00:00:01''"
  by (simp add: isBlacklisted_def whitelist_def blacklist_def removeItem_def)

text \<open>
  C10, amended: after \<open>blacklist(x)\<close> followed by \<open>whitelist(x)\<close> the address \<open>x\<close> is not
  blacklisted, and every other address is blacklisted exactly if it was before. So the
  membership of every address is as before exactly when \<open>x\<close> was not blacklisted before.
\<close>

theorem C10_blacklist_then_whitelist:
  "isBlacklisted (whitelist (blacklist d x) x) y = (y \<noteq> x \<and> isBlacklisted d y)"
  by (auto simp: isBlacklisted_def whitelist_def blacklist_def removeItem_def)

theorem C10_blacklist_then_whitelist_witness:
  "isBlacklisted
     (whitelist
        (blacklist
           \<lparr>restartCount = 0, active = True, d_blacklist = [''B8:1F:5E:00:00:02''], errCount = 0,
            d_units = FAHRENHEIT\<rparr> ''B8:1F:5E:00:00:01'')
        ''B8:1F:5E:00:00:01'') ''B8:1F:5E:00:00:02''"
  using C10_blacklist_then_whitelist
    [of "\<lparr>restartCount = 0, active = True, d_blacklist = [''B8:1F:5E:00:00:02''], errCount = 0,
          d_units = FAHRENHEIT\<rparr>" "''B8:1F:5E:00:00:01''" "''B8:1F:5E:00:00:02''"]
  by (simp add: isBlacklisted_def)

section \<open>The pit controller\<close>

lemmas pit_defs =
  doWork_def tempProbeProcessPeriod_def calcPidOutput_def hasTemperature_def numProbes_def
  isNaN_def js_sub_def js_le_zero_def lidOpenResumeCountdown_def lidModeShouldActivate_def
  call_boolean_def isPitTempReached_def resetLidOpenTimeout_def commitPidOutput_def
  commitFanOutput_def commitServoOutput_def emitStatusReport_def emitFanOutput_def
  emitServoOutput_def fanCurrentMaxSpeed_def mapPct_def mapRange_def constrain_def
  getPidIMax_def underscore_isLidOpen_def pitTemp_def pidOutPut_def setPointNumber_def
  AUTO_LAST_def TEMP_MEASURE_PERIOD_def TEMP_OUTADJUST_CNT_def TEMP_LONG_PWM_CNT_def
  SERVO_MIN_THRESH_def SERVO_MAX_HOLDOFF_def LIDOPEN_MIN_AUTORESUME_def
  PID_PONMEER_LAMBDA_def TEMPPROBE_AVG_SMOOTH_def PID_OUTPUT_AVG_SMOOTH_def
  emitted_def raised_def isLidOpen_def running_def constructed_def Let_def
  set_pidOutPut_def set_pidMode_def set_servoMaxPos_def set_pid_def
  negative_gain_example_def
  manual_low_speed_example_def

subsection \<open>The parts of \<open>doWork\<close>\<close>

text \<open>\<open>doWork\<close> with its heavy part folded into \<open>heavyTick\<close>: the two are the same term.\<close>

lemma doWork_heavyTick:
  "doWork now s =
     (let elapsed = now - lastWorkMillis s;
          (pwmEvents, s) =
            (if longPwmRemaining s \<noteq> 0 \<and> elapsed > longPwmRemaining s
             then (emitFanOutput (fanMaxSpeed s), s\<lparr>longPwmRemaining := 0, lastBlowerOutput := 0\<rparr>)
             else ([], s));
          s = (if TEMP_OUTADJUST_CNT > 0 \<and>
                  elapsed > real (periodCounter s) * (TEMP_MEASURE_PERIOD / real TEMP_OUTADJUST_CNT)
               then s\<lparr>periodCounter := periodCounter s + 1\<rparr>
               else s)
      in
        if elapsed < TEMP_MEASURE_PERIOD then Inr (pwmEvents, s)
        else heavyTick now pwmEvents s)"
  unfolding doWork_def heavyTick_def modeTransitions_def by (rule refl)

lemma heavyTick_periodCounter: "heavyTick now ev (s\<lparr>periodCounter := c\<rparr>) = heavyTick now ev s"
  by (simp add: heavyTick_def)

lemma doWork_heavy:
  assumes "TEMP_MEASURE_PERIOD \<le> now - lastWorkMillis s"
  shows "doWork now s = heavyTick now (pwmSwitchOff now s) (afterSwitchOff now s)"
  using assms
  unfolding doWork_heavyTick Let_def pwmSwitchOff_def afterSwitchOff_def emitFanOutput_def
  by (simp add: heavyTick_periodCounter split: prod.split)

lemma doWork_light:
  assumes "now - lastWorkMillis s < TEMP_MEASURE_PERIOD"
  shows "\<exists>c. doWork now s = Inr (pwmSwitchOff now s, (afterSwitchOff now s)\<lparr>periodCounter := c\<rparr>)"
  using assms
  unfolding doWork_heavyTick Let_def pwmSwitchOff_def afterSwitchOff_def emitFanOutput_def
  by (auto split: prod.split intro: exI [of _ "periodCounter s"])

lemma heavyTick_Inr:
  assumes "heavyTick now pwmEvents s = Inr (events, s')"
  shows "\<exists>s1 s2 ev.
     (if mode_value (pidMode s) \<le> AUTO_LAST
      then calcPidOutput (tempProbeProcessPeriod (s\<lparr>periodCounter := 1, lastWorkMillis := now\<rparr>))
      else Inr (tempProbeProcessPeriod (s\<lparr>periodCounter := 1, lastWorkMillis := now\<rparr>))) = Inr s1 \<and>
     modeTransitions now
       (js_sub (case setPoint s1 of None \<Rightarrow> Null | Some v \<Rightarrow> Num v) (currentTemp s1)) s1 = Inr s2 \<and>
     commitPidOutput s2 = (ev, s') \<and> events = pwmEvents @ ev"
proof -
  have m: "pidMode (tempProbeProcessPeriod (s\<lparr>periodCounter := 1, lastWorkMillis := now\<rparr>)) = pidMode s"
    by (simp add: tempProbeProcessPeriod_def)
  from assms show ?thesis
    unfolding heavyTick_def Let_def m
    by (auto split: sum.splits prod.splits)
qed

lemma afterSwitchOff_frame:
  "limits_ok (afterSwitchOff now s) = limits_ok s \<and>
   pidMode (afterSwitchOff now s) = pidMode s \<and>
   servoMinPos (afterSwitchOff now s) = servoMinPos s \<and>
   servoMaxPos (afterSwitchOff now s) = servoMaxPos s \<and>
   Pid_P (afterSwitchOff now s) = Pid_P s \<and>
   lidOpenTimeout (afterSwitchOff now s) = lidOpenTimeout s \<and>
   lidOpenOffset (afterSwitchOff now s) = lidOpenOffset s"
  by (simp add: afterSwitchOff_def limits_ok_def)

subsection \<open>The PID computation\<close>



subsection \<open>The events of a heavy tick\<close>

lemma commitFanOutput_one_event: "\<exists>f. fst (commitFanOutput s) = [Output fan f]"
  by (simp add: commitFanOutput_def emitFanOutput_def Let_def split: prod.splits)

lemma commitServoOutput_events:
  "fst (commitServoOutput s) =
     (if servoHoldoff (snd (commitServoOutput s)) = 0
      then [Output servo (servoPct (snd (commitServoOutput s)))] else [])"
  by (simp add: commitServoOutput_def emitServoOutput_def Let_def)

lemma commitPidOutput_events:
  assumes "commitPidOutput s = (events, s')"
  shows "\<exists>f st. events =
     [Output fan f] @ (if servoHoldoff s' = 0 then [Output servo (servoPct s')] else []) @ [Status st]"
proof -
  define s1 where "s1 = s\<lparr>pidOutputAvg :=
      calcExpMovingAverage PID_OUTPUT_AVG_SMOOTH (pidOutputAvg s) (Num (pidOutput s))\<rparr>"
  obtain fe s2 where f: "commitFanOutput s1 = (fe, s2)"
    by (cases "commitFanOutput s1")
  obtain se s3 where sv: "commitServoOutput s2 = (se, s3)"
    by (cases "commitServoOutput s2")
  from f commitFanOutput_one_event [of s1] obtain fv where fe: "fe = [Output fan fv]"
    by auto
  from sv have "fst (commitServoOutput s2) = se" and "snd (commitServoOutput s2) = s3"
    by simp_all
  with commitServoOutput_events [of s2]
  have se: "se = (if servoHoldoff s3 = 0 then [Output servo (servoPct s3)] else [])"
    by (simp only:)
  from assms f sv have "s' = s3" and "events = fe @ se @ emitStatusReport s3"
    by (auto simp add: commitPidOutput_def Let_def s1_def)
  with fe se show ?thesis
    by (simp add: emitStatusReport_def)
qed






subsection \<open>Lid-open handling\<close>


text \<open>\<open>_lidModeShouldActivate\<close> never answers yes: it raises or it answers no.\<close>

lemma lidModeShouldActivate_result:
  "lidModeShouldActivate s tempDiff = (if 0 < lidOpenOffset s then Inl TypeError else Inr False)"
  by (simp add: lidModeShouldActivate_def call_boolean_def)

subsection \<open>A negative gain\<close>

text \<open>With a negative gain every update of the integrator raises.\<close>

lemma calcPidOutput_negative_gain:
  assumes "hasTemperature s" and "Pid_P s < 0"
    and "currentTemp s = Num ct"
    and "(setPointNumber s - ct < 0 \<and> pidOutput s > 0) \<or>
         (setPointNumber s - ct > 0 \<and> pidOutput s < getPidIMax s)"
  shows "calcPidOutput s = Inl ReferenceError"
  using assms
  by (auto simp add: calcPidOutput_def hasTemperature_def underscore_isLidOpen_def Let_def
      getPidIMax_def isPitTempReached_def setPointNumber_def numProbes_def isNaN_def
      split: jsnum.splits)

text \<open>
  When the integrator is not to be updated, the computation returns with the mixed P term
  of the claim and the integrator as it was.
\<close>

lemma calcPidOutput_negative_gain_no_update:
  assumes "hasTemperature s" and "Pid_P s < 0"
    and "currentTemp s = Num ct"
    and "\<not> ((setPointNumber s - ct < 0 \<and> pidOutput s > 0) \<or>
            (setPointNumber s - ct > 0 \<and> pidOutput s < getPidIMax s))"
  shows "\<exists>s'. calcPidOutput s = Inr s' \<and>
     pidCurrent_P s' = Pid_P s * (- PID_PONMEER_LAMBDA * setPointNumber s + ct) \<and>
     pidCurrent_I s' = pidCurrent_I s"
  using assms
  by (auto simp add: calcPidOutput_def hasTemperature_def underscore_isLidOpen_def Let_def
      getPidIMax_def isPitTempReached_def setPointNumber_def numProbes_def isNaN_def
      split: jsnum.splits)

text \<open>
  C8 at a failing input: gain \<open>P = -2.5\<close>, set-point 250, pit at 200, previous output 0.
  The error is positive and the previous output is below the bound, so the integrator is
  to be updated: \<open>_calcPidOutput\<close> raises a \<open>ReferenceError\<close> instead of constraining it,
  and so does the heavy tick.
\<close>

theorem C8_negative_gain_raises:
  "calcPidOutput negative_gain_example = Inl ReferenceError \<and>
   doWork 1700000000000 negative_gain_example = Inl ReferenceError"
  by (simp add: pit_defs)

subsection \<open>The status report\<close>

lemma constrain_same: "constrain value m m = m"
  by (simp add: constrain_def)

text \<open>What the parts of a heavy tick leave unchanged.\<close>

lemma calcPidOutput_frame:
  "case calcPidOutput s of
     Inl e \<Rightarrow> True
   | Inr s' \<Rightarrow>
       0 \<le> pidOutput s' \<and> pidOutput s' \<le> 100 \<and>
       fanMaxSpeed s' = fanMaxSpeed s \<and> fanMaxStartupSpeed s' = fanMaxStartupSpeed s \<and>
       fanActiveFloor s' = fanActiveFloor s \<and> fanMinSpeed s' = fanMinSpeed s \<and>
       servoMinPos s' = servoMinPos s \<and> servoMaxPos s' = servoMaxPos s"
  by (simp add: calcPidOutput_def Let_def constrain_def split: jsnum.split)

lemma calcPidOutput_limits:
  assumes "limits_ok s" and "calcPidOutput s = Inr s'"
  shows "limits_ok s' \<and> servoMinPos s' = servoMinPos s \<and> servoMaxPos s' = servoMaxPos s"
  using assms calcPidOutput_frame [of s]
  by (simp add: limits_ok_def)

lemma modeTransitions_frame:
  "case modeTransitions now tempDiff s of
     Inl e \<Rightarrow> True
   | Inr s' \<Rightarrow>
       limits_ok s' = limits_ok s \<and> servoMinPos s' = servoMinPos s \<and>
       servoMaxPos s' = servoMaxPos s"
  by (simp add: modeTransitions_def Let_def limits_ok_def lidModeShouldActivate_result)

lemma tempProbeProcessPeriod_frame:
  "limits_ok (tempProbeProcessPeriod s) = limits_ok s \<and>
   pidMode (tempProbeProcessPeriod s) = pidMode s \<and>
   servoMinPos (tempProbeProcessPeriod s) = servoMinPos s \<and>
   servoMaxPos (tempProbeProcessPeriod s) = servoMaxPos s"
  by (simp add: tempProbeProcessPeriod_def limits_ok_def)

lemma fan_map_range:
  fixes p f m :: real
  assumes "0 \<le> f" "f \<le> 99" "f \<le> p" "p \<le> 100" "0 \<le> m" "m \<le> 100"
  shows "0 \<le> (p - f) * m / (100 - f) \<and> (p - f) * m / (100 - f) \<le> 100"
proof -
  from assms have pos: "0 < 100 - f" by simp
  from assms have "(p - f) * m \<le> (100 - f) * 100"
    by (intro mult_mono) simp_all
  with pos have "(p - f) * m / (100 - f) \<le> 100"
    by (simp add: pos_divide_le_eq mult.commute)
  moreover from assms pos have "0 \<le> (p - f) * m / (100 - f)"
    by simp
  ultimately show ?thesis by simp
qed

lemma commitFanOutput_range:
  assumes "limits_ok s"
  shows "percentage (fanPct (snd (commitFanOutput s))) \<and>
         limits_ok (snd (commitFanOutput s)) \<and>
         servoMinPos (snd (commitFanOutput s)) = servoMinPos s \<and>
         servoMaxPos (snd (commitFanOutput s)) = servoMaxPos s"
proof -
  from assms have m: "0 \<le> fanCurrentMaxSpeed s" "fanCurrentMaxSpeed s \<le> 100"
    by (simp_all add: limits_ok_def fanCurrentMaxSpeed_def)
  have r: "0 \<le> (pidOutput s - fanActiveFloor s) * fanCurrentMaxSpeed s / (100 - fanActiveFloor s) \<and>
      (pidOutput s - fanActiveFloor s) * fanCurrentMaxSpeed s / (100 - fanActiveFloor s) \<le> 100"
    if "fanActiveFloor s \<le> pidOutput s"
    using assms m that by (intro fan_map_range) (simp_all add: limits_ok_def)
  show ?thesis
    using assms r
    by (auto simp add: commitFanOutput_def Let_def limits_ok_def percentage_def emitFanOutput_def
        split: prod.splits if_splits)
qed

lemma mapRange_percentage:
  assumes "mn \<noteq> mx"
  shows "js_percentage (mapRange value mn mx 0 100)"
proof -
  define n where "n = (constrain value mn mx - mn) / (mx - mn)"
  from assms have v: "mapRange value mn mx 0 100 = Num (n * 100)"
    by (simp add: mapRange_def Let_def n_def)
  have "0 \<le> n \<and> n \<le> 1"
  proof (cases "mn < mx")
    case True
    then have "mn \<le> constrain value mn mx" "constrain value mn mx \<le> mx"
      by (simp_all add: constrain_def)
    with True show ?thesis
      by (simp add: n_def)
  next
    case False
    with assms have "mx < mn" by simp
    then have "constrain value mn mx = mx"
      by (simp add: constrain_def)
    with assms show ?thesis
      by (simp add: n_def)
  qed
  then show ?thesis
    unfolding v by (simp add: js_percentage_def percentage_def)
qed

lemma commitServoOutput_frame:
  "limits_ok (snd (commitServoOutput s)) = limits_ok s \<and>
   fanPct (snd (commitServoOutput s)) = fanPct s \<and>
   servoMinPos (snd (commitServoOutput s)) = servoMinPos s \<and>
   servoMaxPos (snd (commitServoOutput s)) = servoMaxPos s"
  by (simp add: commitServoOutput_def Let_def limits_ok_def)

lemma commitPidOutput_status:
  assumes "limits_ok s" and "commitPidOutput s = (events, s')"
  shows "limits_ok s' \<and>
     (\<exists>st. last events = Status st \<and> percentage (st_pidOutput st) \<and>
        percentage (st_fanPct st) \<and>
        (servoMinPos s \<noteq> servoMaxPos s \<longrightarrow> js_percentage (st_servoPct st)))"
proof -
  define s1 where "s1 = s\<lparr>pidOutputAvg :=
      calcExpMovingAverage PID_OUTPUT_AVG_SMOOTH (pidOutputAvg s) (Num (pidOutput s))\<rparr>"
  define s2 where "s2 = snd (commitFanOutput s1)"
  define s3 where "s3 = snd (commitServoOutput s2)"
  from assms(1) have l1: "limits_ok s1"
    by (simp add: s1_def limits_ok_def)
  from commitFanOutput_range [OF l1]
  have f: "percentage (fanPct s2)" "limits_ok s2"
    "servoMinPos s2 = servoMinPos s" "servoMaxPos s2 = servoMaxPos s"
    by (simp_all add: s2_def s1_def)
  from commitServoOutput_frame [of s2] f
  have g: "percentage (fanPct s3)" "limits_ok s3"
    "servoMinPos s3 = servoMinPos s" "servoMaxPos s3 = servoMaxPos s"
    by (simp_all add: s3_def)
  from assms(2) have e: "s' = s3"
    "events = fst (commitFanOutput s1) @ fst (commitServoOutput s2) @ emitStatusReport s3"
    by (auto simp add: commitPidOutput_def Let_def s1_def s2_def s3_def split: prod.splits)
  from g have "percentage (pidOutput s3)"
    by (simp add: limits_ok_def percentage_def)
  with e g mapRange_percentage [of "servoMinPos s" "servoMaxPos s" "servoPct s3"]
  show ?thesis
    by (simp add: emitStatusReport_def pidOutPut_def)
qed

text \<open>
  What holds of C7: from a state within the ranges, a heavy tick that returns ends with a
  status whose output and fan percentage are within \<open>[0, 100]\<close>, and whose servo
  percentage is as well unless the two servo limits are equal; and the ranges hold again
  after it.
\<close>

lemma heavy_tick_status:
  assumes l: "limits_ok s" and h: "TEMP_MEASURE_PERIOD \<le> now - lastWorkMillis s"
    and d: "doWork now s = Inr (events, s')"
  shows "limits_ok s' \<and>
     (\<exists>st. last events = Status st \<and> percentage (st_pidOutput st) \<and>
        percentage (st_fanPct st) \<and>
        (servoMinPos s \<noteq> servoMaxPos s \<longrightarrow> js_percentage (st_servoPct st)))"
proof -
  define s0 where "s0 = tempProbeProcessPeriod
    ((afterSwitchOff now s)\<lparr>periodCounter := 1, lastWorkMillis := now\<rparr>)"
  from d doWork_heavy [OF h]
  have "heavyTick now (pwmSwitchOff now s) (afterSwitchOff now s) = Inr (events, s')"
    by simp
  from heavyTick_Inr [OF this] obtain s1 s2 ev where
    c: "(if mode_value (pidMode (afterSwitchOff now s)) \<le> AUTO_LAST
         then calcPidOutput s0 else Inr s0) = Inr s1" and
    t: "modeTransitions now
       (js_sub (case setPoint s1 of None \<Rightarrow> Null | Some v \<Rightarrow> Num v) (currentTemp s1)) s1 = Inr s2" and
    p: "commitPidOutput s2 = (ev, s')" and e: "events = pwmSwitchOff now s @ ev"
    unfolding s0_def by blast
  from l afterSwitchOff_frame [where now = now and s = s]
  have l0: "limits_ok s0" "servoMinPos s0 = servoMinPos s" "servoMaxPos s0 = servoMaxPos s"
    by (simp_all add: s0_def tempProbeProcessPeriod_def limits_ok_def)
  from c l0 calcPidOutput_limits [where s = s0 and s' = s1]
  have l1: "limits_ok s1" "servoMinPos s1 = servoMinPos s" "servoMaxPos s1 = servoMaxPos s"
    by (auto split: if_splits)
  from t l1 modeTransitions_frame [where now = now and s = s1 and tempDiff =
      "js_sub (case setPoint s1 of None \<Rightarrow> Null | Some v \<Rightarrow> Num v) (currentTemp s1)"]
  have l2: "limits_ok s2" "servoMinPos s2 = servoMinPos s" "servoMaxPos s2 = servoMaxPos s"
    by (auto split: sum.splits)
  from commitPidOutput_status [OF l2(1) p] obtain st where
    "limits_ok s'" "last ev = Status st" "percentage (st_pidOutput st)"
    "percentage (st_fanPct st)"
    "servoMinPos s2 \<noteq> servoMaxPos s2 \<longrightarrow> js_percentage (st_servoPct st)"
    by blast
  moreover from commitPidOutput_events [OF p] have "ev \<noteq> []"
    by auto
  ultimately show ?thesis
    using e l2 by auto
qed

lemma constrain_range: "lo \<le> hi \<Longrightarrow> lo \<le> constrain value lo hi \<and> constrain value lo hi \<le> hi"
  by (simp add: constrain_def)

text \<open>The constructor, the setters, the probe updates and the light ticks keep the ranges.\<close>

lemma constructed_limits: "limits_ok constructed"
  by (simp add: limits_ok_def constructed_def)

lemma setters_limits:
  assumes "limits_ok s"
  shows "limits_ok (set_pid vP vI vD s)" "limits_ok (set_pidMode m s)"
    "limits_ok (set_fanMaxSpeed v s)" "limits_ok (set_fanMaxStartupSpeed v s)"
    "limits_ok (set_fanActiveFloor v s)" "limits_ok (set_fanMinSpeed v s)"
    "limits_ok (set_servoMinPos v s)" "limits_ok (set_servoMaxPos v s)"
    "limits_ok (set_lidOpenOffset v s)" "limits_ok (set_lidOpenDuration v s)"
    "limits_ok (set_setPoint v s)" "limits_ok (set_pidOutPut v s)"
    "limits_ok (updateProbe fused data s)" "limits_ok (removeProbe address s)"
  using assms
  by (simp_all add: limits_ok_def set_pid_def set_pidMode_def set_fanMaxSpeed_def
      set_fanMaxStartupSpeed_def set_fanActiveFloor_def set_fanMinSpeed_def set_servoMinPos_def
      set_servoMaxPos_def set_lidOpenOffset_def set_lidOpenDuration_def set_setPoint_def
      set_pidOutPut_def updateProbe_def removeProbe_def setUnits_def Let_def constrain_def
      split: option.split)

lemma light_tick_limits:
  assumes "limits_ok s" and "now - lastWorkMillis s < TEMP_MEASURE_PERIOD"
  shows "\<exists>s'. doWork now s = Inr (pwmSwitchOff now s, s') \<and> limits_ok s'"
proof -
  from doWork_light [OF assms(2)] obtain c where
    "doWork now s = Inr (pwmSwitchOff now s, (afterSwitchOff now s)\<lparr>periodCounter := c\<rparr>)"
    by blast
  moreover from assms(1) afterSwitchOff_frame [where now = now and s = s]
  have "limits_ok ((afterSwitchOff now s)\<lparr>periodCounter := c\<rparr>)"
    by (simp add: limits_ok_def)
  ultimately show ?thesis
    by blast
qed

text \<open>
  A heavy tick returns unless one of the two raising expressions is reached: the update of
  the integrator under a negative gain, or the test for the lid activation with a positive
  offset, which is reached only when no countdown is active.
\<close>

lemma calcPidOutput_returns:
  "0 \<le> Pid_P s \<Longrightarrow> raised (calcPidOutput s) = None"
  by (simp add: calcPidOutput_def raised_def Let_def split: jsnum.split)

lemma calcPidOutput_lid_fields:
  "case calcPidOutput s of
     Inl e \<Rightarrow> True
   | Inr s' \<Rightarrow> lidOpenOffset s' = lidOpenOffset s \<and> lidOpenTimeout s' = lidOpenTimeout s"
  by (simp add: calcPidOutput_def Let_def split: jsnum.split)

lemma modeTransitions_returns:
  "lidOpenOffset s \<le> 0 \<or> now \<noteq> lidOpenTimeout s \<Longrightarrow>
   raised (modeTransitions now tempDiff s) = None"
  by (auto simp add: modeTransitions_def raised_def Let_def lidModeShouldActivate_result
      lidOpenResumeCountdown_def)

lemma heavy_tick_returns:
  assumes h: "TEMP_MEASURE_PERIOD \<le> now - lastWorkMillis s"
    and p: "0 \<le> Pid_P s"
    and l: "lidOpenOffset s \<le> 0 \<or> now \<noteq> lidOpenTimeout s"
  shows "\<exists>events s'. doWork now s = Inr (events, s')"
proof -
  define s0 where "s0 = tempProbeProcessPeriod
    ((afterSwitchOff now s)\<lparr>periodCounter := 1, lastWorkMillis := now\<rparr>)"
  have f0: "Pid_P s0 = Pid_P s" "lidOpenOffset s0 = lidOpenOffset s"
    "lidOpenTimeout s0 = lidOpenTimeout s"
    using afterSwitchOff_frame [where now = now and s = s]
    by (simp_all add: s0_def tempProbeProcessPeriod_def)
  have "\<exists>s1. (if mode_value (pidMode s0) \<le> AUTO_LAST then calcPidOutput s0 else Inr s0) = Inr s1"
  proof (cases "mode_value (pidMode s0) \<le> AUTO_LAST")
    case True
    with calcPidOutput_returns [of s0] p f0 show ?thesis
      by (cases "calcPidOutput s0") (auto simp add: raised_def)
  next
    case False
    then show ?thesis
      by simp
  qed
  then obtain s1 where
    c: "(if mode_value (pidMode s0) \<le> AUTO_LAST then calcPidOutput s0 else Inr s0) = Inr s1"
    by blast
  have f1: "lidOpenOffset s1 = lidOpenOffset s" "lidOpenTimeout s1 = lidOpenTimeout s"
    using c calcPidOutput_lid_fields [of s0] f0
    by (auto split: if_splits)
  define td where "td = js_sub (case setPoint s1 of None \<Rightarrow> Null | Some v \<Rightarrow> Num v) (currentTemp s1)"
  obtain s2 where t: "modeTransitions now td s1 = Inr s2"
    using modeTransitions_returns [where now = now and s = s1 and tempDiff = td] l f1
    by (cases "modeTransitions now td s1") (auto simp add: raised_def)
  have "heavyTick now (pwmSwitchOff now s) (afterSwitchOff now s) =
      Inr (pwmSwitchOff now s @ fst (commitPidOutput s2), snd (commitPidOutput s2))"
    using c t
    unfolding heavyTick_def Let_def s0_def [symmetric] td_def [symmetric]
    by (simp add: td_def [symmetric] split: prod.split)
  with doWork_heavy [OF h] show ?thesis
    by simp
qed

text \<open>With equal servo limits the reported servo percentage is not a number.\<close>

lemma emitStatusReport_equal_limits:
  "servoMinPos s = servoMaxPos s \<Longrightarrow>
   \<exists>st. emitStatusReport s = [Status st] \<and> st_servoPct st = NaN"
  by (simp add: emitStatusReport_def mapRange_def)

text \<open>
  C7 at a failing input: the setter \<open>servoMaxPos\<close> accepts 0, which is also the default of
  \<open>servoMinPos\<close>. The status of the next heavy tick carries \<open>NaN\<close> as servo percentage.
\<close>

theorem C7_status_servoPct_NaN:
  "emitted (doWork 1700000000000 (set_servoMaxPos 0 constructed)) =
     Some [Output fan 0,
           Status
            \<lparr>st_mode = ''STARTUP'', st_numProbes = 0, st_pitTemp = Null,
               st_setPoint = None, st_units = None, st_pidOutput = 0,
               st_fanPct = 0, st_servoPct = NaN\<rparr>]"
  by (simp add: pit_defs)

subsection \<open>Long pulses\<close>

text \<open>
  C6 at a failing input: the controller in manual mode with the mapped fan speed 22.5
  and the minimal speed 50, called every 250 ms. The on-time of a window is 4500 ms. The
  heavy ticks commit the speed 50 five times (the first with the boost to 100), the fifth
  with 500 ms of on-time left. The call 750 ms later finds the on-time used up and
  emits the \<open>fan\<close> value 80, which is \<open>fanMaxSpeed\<close>, where the claim says 0.
\<close>

theorem C6_switch_off_emits_fanMaxSpeed:
  "emitted
     (ticks
        [1700000000000, 1700000000250, 1700000000500, 1700000000750,
         1700000001000, 1700000001250, 1700000001500, 1700000001750,
         1700000002000, 1700000002250, 1700000002500, 1700000002750,
         1700000003000, 1700000003250, 1700000003500, 1700000003750,
         1700000004000, 1700000004250, 1700000004500, 1700000004750]
        manual_low_speed_example) =
     Some [Output fan 100, Output servo 64.0625,
           Status
            \<lparr>st_mode = ''MANUAL'', st_numProbes = 1, st_pitTemp = Num 200,
               st_setPoint = Some 250, st_units = Some FAHRENHEIT, st_pidOutput = 64.0625,
               st_fanPct = 50, st_servoPct = Num 64.0625\<rparr>,
           Output fan 50,
           Status
            \<lparr>st_mode = ''MANUAL'', st_numProbes = 1, st_pitTemp = Num 200,
               st_setPoint = Some 250, st_units = Some FAHRENHEIT, st_pidOutput = 64.0625,
               st_fanPct = 50, st_servoPct = Num 64.0625\<rparr>,
           Output fan 50,
           Status
            \<lparr>st_mode = ''MANUAL'', st_numProbes = 1, st_pitTemp = Num 200,
               st_setPoint = Some 250, st_units = Some FAHRENHEIT, st_pidOutput = 64.0625,
               st_fanPct = 50, st_servoPct = Num 64.0625\<rparr>,
           Output fan 50,
           Status
            \<lparr>st_mode = ''MANUAL'', st_numProbes = 1, st_pitTemp = Num 200,
               st_setPoint = Some 250, st_units = Some FAHRENHEIT, st_pidOutput = 64.0625,
               st_fanPct = 50, st_servoPct = Num 64.0625\<rparr>,
           Output fan 50,
           Status
            \<lparr>st_mode = ''MANUAL'', st_numProbes = 1, st_pitTemp = Num 200,
               st_setPoint = Some 250, st_units = Some FAHRENHEIT, st_pidOutput = 64.0625,
               st_fanPct = 50, st_servoPct = Num 64.0625\<rparr>,
           Output fan 80]"
  by (simp add: pit_defs)

section \<open>The lid timer in the runs of the controller\<close>

lemmas run_defs = pit_defs after_def probe_reading_def set_setPoint_def set_lidOpenOffset_def
  updateProbe_def setUnits_def started_def lid_drop_calls_def lid_drop_example_def
  probe_lost_calls_def probe_lost_example_def removeProbe_def

subsection \<open>The example runs\<close>







subsection \<open>The parts of a heavy tick and the clock\<close>

text \<open>
  What the parts of a call do to the lid timeout, to the time of the last work and to the
  mode. The mode transitions raise only when the lid timeout is the time of the call, they
  do not enter the mode \<open>RECOVERY\<close>, and they leave a lid timeout that has passed.
\<close>

lemma afterSwitchOff_clock:
  "lastWorkMillis (afterSwitchOff now s) = lastWorkMillis s \<and>
   lidOpenTimeout (afterSwitchOff now s) = lidOpenTimeout s"
  by (simp add: afterSwitchOff_def)

lemma pidInput_fields:
  "lidOpenTimeout (pidInput now s) = lidOpenTimeout s \<and>
   lastWorkMillis (pidInput now s) = now \<and>
   pidMode (pidInput now s) = pidMode s \<and>
   lidOpenOffset (pidInput now s) = lidOpenOffset s"
  by (simp add: pidInput_def tempProbeProcessPeriod_def afterSwitchOff_def)


lemma calcPidOutput_clock:
  "case calcPidOutput s of
     Inl e \<Rightarrow> e = ReferenceError
   | Inr s' \<Rightarrow>
       lidOpenTimeout s' = lidOpenTimeout s \<and> lastWorkMillis s' = lastWorkMillis s \<and>
       pidMode s' = pidMode s \<and> lidOpenOffset s' = lidOpenOffset s"
  by (simp add: calcPidOutput_def Let_def split: jsnum.split)

lemma modeTransitions_clock:
  "case modeTransitions now tempDiff s of
     Inl e \<Rightarrow> now = lidOpenTimeout s
   | Inr s' \<Rightarrow>
       lastWorkMillis s' = lastWorkMillis s \<and>
       (pidMode s' = RECOVERY \<longrightarrow> pidMode s = RECOVERY) \<and>
       (0 \<le> lidOpenTimeout s \<and> lidOpenTimeout s \<le> now - 1000 \<longrightarrow>
          0 \<le> lidOpenTimeout s' \<and> lidOpenTimeout s' \<le> now)"
  by (auto simp add: modeTransitions_def Let_def lidModeShouldActivate_result
      lidOpenResumeCountdown_def TEMP_MEASURE_PERIOD_def diff_divide_distrib)


text \<open>
  When the lid timeout is not the time of the call, the activation of the lid mode is not
  evaluated: the transitions end in their first or in their second branch.
\<close>

lemma modeTransitions_countdown:
  assumes "now \<noteq> lidOpenTimeout s"
  shows "modeTransitions now tempDiff s =
     (if js_le_zero tempDiff \<and>
         lidOpenDuration s - lidOpenResumeCountdown now s \<ge> LIDOPEN_MIN_AUTORESUME
      then Inr ((if pidMode s = STARTUP then s\<lparr>pidCurrent_I := pidCurrent_I s * 0.5\<rparr> else s)
                  \<lparr>pidMode := NORMAL, lidOpenTimeout := 0\<rparr>)
      else Inr (s\<lparr>lidOpenTimeout :=
                    lidOpenResumeCountdown now s * 1000 - TEMP_MEASURE_PERIOD\<rparr>))"
  using assms
  by (simp add: modeTransitions_def Let_def lidOpenResumeCountdown_def)

lemma commitFanOutput_clock:
  "lidOpenTimeout (snd (commitFanOutput s)) = lidOpenTimeout s \<and>
   lastWorkMillis (snd (commitFanOutput s)) = lastWorkMillis s \<and>
   pidMode (snd (commitFanOutput s)) = pidMode s \<and>
   pidOutput (snd (commitFanOutput s)) = pidOutput s"
  by (simp add: commitFanOutput_def Let_def split: prod.split)

lemma commitServoOutput_clock:
  "lidOpenTimeout (snd (commitServoOutput s)) = lidOpenTimeout s \<and>
   lastWorkMillis (snd (commitServoOutput s)) = lastWorkMillis s \<and>
   pidMode (snd (commitServoOutput s)) = pidMode s \<and>
   pidOutput (snd (commitServoOutput s)) = pidOutput s"
  by (simp add: commitServoOutput_def Let_def)

lemma commitPidOutput_clock:
  "lidOpenTimeout (snd (commitPidOutput s)) = lidOpenTimeout s \<and>
   lastWorkMillis (snd (commitPidOutput s)) = lastWorkMillis s \<and>
   pidMode (snd (commitPidOutput s)) = pidMode s \<and>
   pidOutput (snd (commitPidOutput s)) = pidOutput s"
proof -
  define s1 where "s1 = s\<lparr>pidOutputAvg :=
      calcExpMovingAverage PID_OUTPUT_AVG_SMOOTH (pidOutputAvg s) (Num (pidOutput s))\<rparr>"
  define s2 where "s2 = snd (commitFanOutput s1)"
  have "snd (commitPidOutput s) = snd (commitServoOutput s2)"
    by (simp add: commitPidOutput_def Let_def s1_def s2_def split: prod.split)
  with commitServoOutput_clock [of s2] commitFanOutput_clock [of s1] show ?thesis
    by (simp add: s2_def s1_def)
qed

text \<open>
  A heavy tick, forwards and backwards: from the results of its parts to the result of the
  call, and from the result of the call to the results of its parts.
\<close>

lemma heavy_tick_forward:
  assumes h: "TEMP_MEASURE_PERIOD \<le> now - lastWorkMillis s"
    and c: "(if mode_value (pidMode s) \<le> AUTO_LAST then calcPidOutput (pidInput now s)
             else Inr (pidInput now s)) = Inr s1"
    and t: "modeTransitions now
       (js_sub (case setPoint s1 of None \<Rightarrow> Null | Some v \<Rightarrow> Num v) (currentTemp s1)) s1 = Inr s2"
  shows "doWork now s =
     Inr (pwmSwitchOff now s @ fst (commitPidOutput s2), snd (commitPidOutput s2))"
proof -
  have m: "pidMode (pidInput now s) = pidMode s"
    by (simp add: pidInput_fields)
  have "heavyTick now (pwmSwitchOff now s) (afterSwitchOff now s) =
      Inr (pwmSwitchOff now s @ fst (commitPidOutput s2), snd (commitPidOutput s2))"
    using c t
    unfolding heavyTick_def Let_def pidInput_def [symmetric] m
    by (simp split: prod.split)
  with doWork_heavy [OF h] show ?thesis
    by simp
qed

lemma heavy_tick_forward_raise:
  assumes h: "TEMP_MEASURE_PERIOD \<le> now - lastWorkMillis s"
    and c: "(if mode_value (pidMode s) \<le> AUTO_LAST then calcPidOutput (pidInput now s)
             else Inr (pidInput now s)) = Inl e"
  shows "doWork now s = Inl e"
proof -
  have m: "pidMode (pidInput now s) = pidMode s"
    by (simp add: pidInput_fields)
  have "heavyTick now (pwmSwitchOff now s) (afterSwitchOff now s) = Inl e"
    using c
    unfolding heavyTick_def Let_def pidInput_def [symmetric] m
    by simp
  with doWork_heavy [OF h] show ?thesis
    by simp
qed

lemma heavy_tick_backward:
  assumes h: "TEMP_MEASURE_PERIOD \<le> now - lastWorkMillis s"
    and d: "doWork now s = Inr (events, s')"
  shows "\<exists>s1 s2.
     (if mode_value (pidMode s) \<le> AUTO_LAST then calcPidOutput (pidInput now s)
      else Inr (pidInput now s)) = Inr s1 \<and>
     modeTransitions now
       (js_sub (case setPoint s1 of None \<Rightarrow> Null | Some v \<Rightarrow> Num v) (currentTemp s1)) s1 = Inr s2 \<and>
     s' = snd (commitPidOutput s2)"
proof -
  from d doWork_heavy [OF h]
  have "heavyTick now (pwmSwitchOff now s) (afterSwitchOff now s) = Inr (events, s')"
    by simp
  from heavyTick_Inr [OF this] afterSwitchOff_frame [where now = now and s = s]
  show ?thesis
    unfolding pidInput_def by fastforce
qed

subsection \<open>The lid timeout has passed\<close>

text \<open>
  \<open>_lidOpenTimeout\<close> is written as 0 (the constructor, the setter of the mode, the
  set-point reached), as \<open>now - _lidOpenTimeout - 1000\<close> (the countdown branch), and by
  \<open>_resetLidOpenTimeout\<close>. Every call keeps it between 0 and the time of the last heavy
  tick, so it is so in every state of every run.
\<close>

lemma doWork_lidTimeoutPassed:
  assumes i: "lidTimeoutPassed s" and d: "doWork now s = Inr (events, s')"
  shows "lidTimeoutPassed s'"
proof (cases "now - lastWorkMillis s < TEMP_MEASURE_PERIOD")
  case True
  from doWork_light [OF True] d obtain c where
    "s' = (afterSwitchOff now s)\<lparr>periodCounter := c\<rparr>"
    by auto
  with i afterSwitchOff_clock [of now s] show ?thesis
    by (simp add: lidTimeoutPassed_def)
next
  case False
  then have h: "TEMP_MEASURE_PERIOD \<le> now - lastWorkMillis s"
    by simp
  from heavy_tick_backward [OF h d] obtain s1 s2 where
    c: "(if mode_value (pidMode s) \<le> AUTO_LAST then calcPidOutput (pidInput now s)
         else Inr (pidInput now s)) = Inr s1" and
    t: "modeTransitions now
       (js_sub (case setPoint s1 of None \<Rightarrow> Null | Some v \<Rightarrow> Num v) (currentTemp s1)) s1 = Inr s2" and
    e: "s' = snd (commitPidOutput s2)"
    by blast
  from c calcPidOutput_clock [of "pidInput now s"] pidInput_fields [of now s]
  have f1: "lidOpenTimeout s1 = lidOpenTimeout s" "lastWorkMillis s1 = now"
    by (auto split: if_splits)
  from i h have "0 \<le> lidOpenTimeout s" "lidOpenTimeout s \<le> now - 1000"
    by (simp_all add: lidTimeoutPassed_def TEMP_MEASURE_PERIOD_def)
  with t f1 modeTransitions_clock [where now = now and s = s1 and tempDiff =
      "js_sub (case setPoint s1 of None \<Rightarrow> Null | Some v \<Rightarrow> Num v) (currentTemp s1)"]
  have "0 \<le> lidOpenTimeout s2" "lidOpenTimeout s2 \<le> now" "lastWorkMillis s2 = now"
    by simp_all
  with e commitPidOutput_clock [of s2] show ?thesis
    by (simp add: lidTimeoutPassed_def)
qed

lemma invoke_lidTimeoutPassed:
  assumes "lidTimeoutPassed s" and "invoke c s = Inr (events, s')"
  shows "lidTimeoutPassed s'"
proof (cases c)
  case (DoWork now)
  with assms show ?thesis
    by (auto intro: doWork_lidTimeoutPassed)
qed (use assms in \<open>auto simp add: lidTimeoutPassed_def set_pid_def set_pidMode_def
      set_fanMaxSpeed_def set_fanMaxStartupSpeed_def set_fanActiveFloor_def set_fanMinSpeed_def
      set_servoMinPos_def set_servoMaxPos_def set_lidOpenOffset_def set_lidOpenDuration_def
      set_setPoint_def set_pidOutPut_def updateProbe_def removeProbe_def setUnits_def Let_def
      split: option.splits\<close>)

lemma reachable_lidTimeoutPassed: "reachable s \<Longrightarrow> lidTimeoutPassed s"
proof (induction rule: reachable.induct)
  case (new now events s)
  have "lidTimeoutPassed constructed"
    by (simp add: lidTimeoutPassed_def constructed_def)
  from this new show ?case
    by (rule doWork_lidTimeoutPassed)
next
  case (step s c events s')
  then show ?case
    by (blast intro: invoke_lidTimeoutPassed)
qed

text \<open>At a heavy tick the lid is not considered open, and the lid timeout is in the past.\<close>

lemma reachable_lid_closed:
  assumes "reachable s" and "TEMP_MEASURE_PERIOD \<le> now - lastWorkMillis s"
  shows "\<not> isLidOpen now s \<and> lidOpenTimeout s < now"
  using reachable_lidTimeoutPassed [OF assms(1)] assms(2)
  by (simp add: lidTimeoutPassed_def isLidOpen_def TEMP_MEASURE_PERIOD_def)



subsection \<open>The activation of the lid mode\<close>

text \<open>
  In every run and at every heavy tick the test \<open>lidOpenResumeCountdown != 0\<close> of the
  countdown branch holds. So \<open>_lidModeShouldActivate\<close> is not evaluated and its
  \<open>TypeError\<close> is not raised, no tick enters the mode \<open>RECOVERY\<close>, and the lid timeout
  that a tick leaves is not in the future.
\<close>

lemma lid_activation_unreached:

  assumes r: "reachable s" and h: "TEMP_MEASURE_PERIOD \<le> now - lastWorkMillis s"
  shows "lidOpenResumeCountdown now s \<noteq> 0 \<and> doWork now s \<noteq> Inl TypeError \<and>
     (\<forall>events s'. doWork now s = Inr (events, s') \<longrightarrow>
        (pidMode s' = RECOVERY \<longrightarrow> pidMode s = RECOVERY) \<and> lidOpenTimeout s' \<le> now)"
proof -
  from reachable_lid_closed [OF r h] have l: "lidOpenTimeout s < now"
    by simp
  then have cd: "lidOpenResumeCountdown now s \<noteq> 0"
    by (simp add: lidOpenResumeCountdown_def)
  from reachable_lidTimeoutPassed [OF r] h
  have b: "0 \<le> lidOpenTimeout s" "lidOpenTimeout s \<le> now - 1000"
    by (simp_all add: lidTimeoutPassed_def TEMP_MEASURE_PERIOD_def)
  define c where "c = (if mode_value (pidMode s) \<le> AUTO_LAST then calcPidOutput (pidInput now s)
         else Inr (pidInput now s))"
  have nt: "doWork now s \<noteq> Inl TypeError"
  proof (cases c)
    case (Inl e)
    with calcPidOutput_clock [of "pidInput now s"] have "e = ReferenceError"
      by (auto simp add: c_def split: if_splits)
    moreover from heavy_tick_forward_raise [OF h Inl [unfolded c_def]] have "doWork now s = Inl e" .
    ultimately show ?thesis
      by simp
  next
    case (Inr s1)
    define td where "td = js_sub (case setPoint s1 of None \<Rightarrow> Null | Some v \<Rightarrow> Num v) (currentTemp s1)"
    from Inr calcPidOutput_clock [of "pidInput now s"] pidInput_fields [of now s]
    have "lidOpenTimeout s1 = lidOpenTimeout s"
      by (auto simp add: c_def split: if_splits)
    with l have "now \<noteq> lidOpenTimeout s1"
      by simp
    from modeTransitions_countdown [OF this, of td] obtain s2 where "modeTransitions now td s1 = Inr s2"
      by (auto split: if_splits)
    from heavy_tick_forward [OF h Inr [unfolded c_def] this [unfolded td_def]] show ?thesis
      by simp
  qed
  have "(pidMode s' = RECOVERY \<longrightarrow> pidMode s = RECOVERY) \<and> lidOpenTimeout s' \<le> now"
    if d: "doWork now s = Inr (events, s')" for events s'
  proof -
    from heavy_tick_backward [OF h d] obtain s1 s2 where
      c1: "(if mode_value (pidMode s) \<le> AUTO_LAST then calcPidOutput (pidInput now s)
         else Inr (pidInput now s)) = Inr s1" and
      t: "modeTransitions now
         (js_sub (case setPoint s1 of None \<Rightarrow> Null | Some v \<Rightarrow> Num v) (currentTemp s1)) s1 = Inr s2" and
      e: "s' = snd (commitPidOutput s2)"
      by blast
    from c1 calcPidOutput_clock [of "pidInput now s"] pidInput_fields [of now s]
    have f1: "lidOpenTimeout s1 = lidOpenTimeout s" "pidMode s1 = pidMode s"
      by (auto split: if_splits)
    with t b modeTransitions_clock [where now = now and s = s1 and tempDiff =
        "js_sub (case setPoint s1 of None \<Rightarrow> Null | Some v \<Rightarrow> Num v) (currentTemp s1)"]
    have "pidMode s2 = RECOVERY \<longrightarrow> pidMode s = RECOVERY" "lidOpenTimeout s2 \<le> now"
      by simp_all
    with e commitPidOutput_clock [of s2] show ?thesis
      by simp
  qed
  with cd nt show ?thesis
    by blast
qed

text \<open>
  C5 at a failing input. The controller is built at the time 1700000000000, and the calls
  \<open>lid_drop_calls\<close> leave it in the mode \<open>NORMAL\<close> with the offset 20, the set-point 250,
  the pit temperature 200, the output average 0, and the lid timer cleared: the lid timeout
  is 0 and the lid is not considered open. At the heavy tick at 1700000003000 the
  temperature is 20 per cent below the set-point, so the set-point-reached branch is not
  taken. No countdown is running, but the test of the countdown branch compares
  \<open>(millis() - this._lidOpenTimeout) / 1000\<close>, which is 1700000003, with 0: the branch is
  taken. The mode stays \<open>NORMAL\<close> and the lid timeout becomes 1700000002000, one second in
  the past, where the claim says that the tick sets the mode \<open>RECOVERY\<close> and the lid
  timeout.
\<close>

theorem C5_lid_drop_stays_normal:
  "after (doWork 1700000000000 constructed) = Some started \<and>
   after (run lid_drop_calls started) = Some lid_drop_example \<and>
   lidOpenOffset lid_drop_example = 20 \<and> pidMode lid_drop_example = NORMAL \<and>
   setPoint lid_drop_example = Some 250 \<and> currentTemp lid_drop_example = Num 200 \<and>
   pidOutputAvg lid_drop_example = Num 0 \<and> lidOpenTimeout lid_drop_example = 0 \<and>
   TEMP_MEASURE_PERIOD \<le> 1700000003000 - lastWorkMillis lid_drop_example \<and>
   \<not> isLidOpen 1700000003000 lid_drop_example \<and>
   lidOpenResumeCountdown 1700000003000 lid_drop_example = 1700000003 \<and>
   map_option pidMode (after (doWork 1700000003000 lid_drop_example)) = Some NORMAL \<and>
   map_option lidOpenTimeout (after (doWork 1700000003000 lid_drop_example)) = Some 1700000002000"
proof -
  have "after (doWork 1700000000000 constructed) = Some started"
    by (simp add: run_defs)
  moreover have "after (run lid_drop_calls started) = Some lid_drop_example"
    by (simp add: run_defs)
  moreover have "lidOpenOffset lid_drop_example = 20 \<and> pidMode lid_drop_example = NORMAL \<and>
   setPoint lid_drop_example = Some 250 \<and> currentTemp lid_drop_example = Num 200 \<and>
   pidOutputAvg lid_drop_example = Num 0 \<and> lidOpenTimeout lid_drop_example = 0 \<and>
   TEMP_MEASURE_PERIOD \<le> 1700000003000 - lastWorkMillis lid_drop_example \<and>
   \<not> isLidOpen 1700000003000 lid_drop_example \<and>
   lidOpenResumeCountdown 1700000003000 lid_drop_example = 1700000003"
    by (simp add: lid_drop_example_def constructed_def TEMP_MEASURE_PERIOD_def isLidOpen_def
        lidOpenResumeCountdown_def)
  moreover have "map_option pidMode (after (doWork 1700000003000 lid_drop_example)) = Some NORMAL"
    by (simp add: run_defs)
  moreover have
    "map_option lidOpenTimeout (after (doWork 1700000003000 lid_drop_example)) = Some 1700000002000"
    by (simp add: run_defs)
  ultimately show ?thesis
    by simp
qed

end
